theory Spec2Isabelle
  imports Main "HOL-Library.AList"
begin

section \<open>JavaScript values, objects and strings\<close>

text \<open>
  The controller \<^verbatim>\<open>src/controllers/user.controller.js\<close> handles JavaScript values.
  The ones that occur are \<^verbatim>\<open>undefined\<close>, \<^verbatim>\<open>null\<close>, strings, numbers, booleans and
  database ids. An object (a request body, a stored document, a response payload) is an
  association list from property names to values; reading a property that is not there
  gives \<^verbatim>\<open>undefined\<close>.
\<close>

datatype js = Undefined | Null | Str string | Num nat | Bool bool | ObjectId nat

type_synonym obj = "(string \<times> js) list"

definition property :: "obj \<Rightarrow> string \<Rightarrow> js" where
  "property d k = (case map_of d k of None \<Rightarrow> Undefined | Some v \<Rightarrow> v)"

text \<open>
  Text fields of a request are strings or absent: \<open>None\<close> is \<^verbatim>\<open>undefined\<close>.
  \<open>truthy\<close> is JavaScript's truthiness on such a value (\<^verbatim>\<open>!x\<close> is its negation):
  \<^verbatim>\<open>undefined\<close> and the empty string are falsy.
\<close>

definition truthy :: "string option \<Rightarrow> bool" where
  "truthy x = (case x of None \<Rightarrow> False | Some s \<Rightarrow> s \<noteq> [])"

definition opt_js :: "string option \<Rightarrow> js" where
  "opt_js x = (case x of None \<Rightarrow> Undefined | Some s \<Rightarrow> Str s)"

text \<open>\<^verbatim>\<open>a || b\<close> on two such values.\<close>

definition or_else :: "string option \<Rightarrow> string option \<Rightarrow> string option" where
  "or_else a b = (if truthy a then a else b)"

text \<open>
  A \<open>char\<close> stands for a code unit below 256. \<^verbatim>\<open>String.prototype.trim\<close> removes
  white space at both ends (tab, line feed, vertical tab, form feed, carriage return,
  space, no-break space); \<^verbatim>\<open>toLowerCase\<close> maps the capital letters \<^verbatim>\<open>A-Z\<close> and the
  capital letters of Latin-1 to their small forms.
\<close>

definition is_ws :: "char \<Rightarrow> bool" where
  "is_ws c = (of_char c \<in> {9, 10, 11, 12, 13, 32, 160 :: nat})"

definition trim :: "string \<Rightarrow> string" where
  "trim s = dropWhile is_ws (rev (dropWhile is_ws (rev s)))"

definition lower_char :: "char \<Rightarrow> char" where
  "lower_char c =
     (let n = (of_char c :: nat)
      in if (65 \<le> n \<and> n \<le> 90) \<or> (192 \<le> n \<and> n \<le> 222 \<and> n \<noteq> 215)
         then char_of (n + 32) else c)"

definition toLowerCase :: "string \<Rightarrow> string" where
  "toLowerCase s = map lower_char s"

section \<open>Errors, responses and requests\<close>

text \<open>
  Modelled from the spec: \<^verbatim>\<open>utils/ApiError.js\<close>, \<^verbatim>\<open>utils/ApiResponse.js\<close> and
  \<^verbatim>\<open>utils/asyncHandler.js\<close> are missing from the sources. An \<open>ApiError\<close> is the error
  envelope of a status code and a message, an \<open>ApiResponse\<close> the envelope of a status
  code, a payload and a message. \<open>TypeError\<close> is the error the JavaScript engine raises
  when a property of \<^verbatim>\<open>undefined\<close> is read; \<open>JwtError\<close> is what \<^verbatim>\<open>jwt.verify\<close> throws.
\<close>

datatype exn = ApiError nat string | TypeError string | JwtError string

fun exn_message :: "exn \<Rightarrow> string" where
  "exn_message (ApiError c m) = m"
| "exn_message (TypeError m) = m"
| "exn_message (JwtError m) = m"

record cookie_options =
  httpOnly :: bool
  secure :: bool

definition options :: cookie_options where
  "options = \<lparr>httpOnly = True, secure = True\<rparr>"

record api_response =
  statusCode :: nat
  data :: obj
  message :: string

definition ApiResponse :: "nat \<Rightarrow> obj \<Rightarrow> string \<Rightarrow> api_response" where
  "ApiResponse c d m = \<lparr>statusCode = c, data = d, message = m\<rparr>"

text \<open>
  What a handler has sent with \<^verbatim>\<open>res.status(..).cookie(..).clearCookie(..).json(..)\<close>.
\<close>

record response =
  status :: nat
  cookie :: "(string \<times> js \<times> cookie_options) list"
  clearCookie :: "(string \<times> cookie_options) list"
  json :: api_response

text \<open>
  How a handler ends: it throws (the wrapper hands the error on, and the client gets the
  error envelope), it sends a response, or it returns without either. The last happens
  in one place only, the \<^verbatim>\<open>catch\<close> block of \<open>refreshAccessToken\<close>, which builds an error
  and drops it; \<open>Dropped\<close> carries that error.
\<close>

datatype outcome = Threw exn | Sent response | Dropped exn

record multer_file =
  path :: string

text \<open>
  The request as the handlers read it: \<^verbatim>\<open>req.body\<close>, \<^verbatim>\<open>req.cookies\<close>, \<^verbatim>\<open>req.params\<close>,
  \<^verbatim>\<open>req.files\<close> (absent, or the uploaded files by form field) and \<^verbatim>\<open>req.user\<close> (absent,
  or the user the authentication step resolved).
\<close>

record request =
  body :: "(string \<times> string) list"
  cookies :: "(string \<times> string) list"
  params :: "(string \<times> string) list"
  files :: "(string \<times> multer_file list) list option"
  user :: "obj option"

section \<open>The Credential Store\<close>

text \<open>
  Modelled from the spec: \<^verbatim>\<open>models/user.model.js\<close> and the database behind it are
  missing from the sources. The User collection is the list of its documents. A document
  holds the fields the controller writes, under the names the controller writes them,
  and an \<^verbatim>\<open>_id\<close>. The store offers lookup by id, lookup by filter, create and save of
  one changed field. A filter value \<^verbatim>\<open>undefined\<close> reaches the database as \<^verbatim>\<open>null\<close>,
  which also matches a missing field.
\<close>

type_synonym store = "obj list"

definition to_bson :: "js \<Rightarrow> js" where
  "to_bson v = (if v = Undefined then Null else v)"

definition matches :: "obj \<Rightarrow> string \<Rightarrow> js \<Rightarrow> bool" where
  "matches d k v = (to_bson (property d k) = to_bson v)"

definition findOne :: "(obj \<Rightarrow> bool) \<Rightarrow> store \<Rightarrow> obj option" where
  "findOne flt st = find flt st"

text \<open>\<^verbatim>\<open>findById(undefined)\<close> looks for the id \<^verbatim>\<open>null\<close>, which no document has.\<close>

definition findById :: "store \<Rightarrow> js \<Rightarrow> obj option" where
  "findById st i =
     (if i = Undefined \<or> i = Null then None else find (\<lambda>d. map_of d ''_id'' = Some i) st)"

text \<open>
  \<^verbatim>\<open>user.f = v; user.save()\<close> on the document with id \<open>i\<close>: the one changed field is
  written to that document.
\<close>

fun save_field :: "store \<Rightarrow> js \<Rightarrow> string \<Rightarrow> js \<Rightarrow> store" where
  "save_field [] i k v = []"
| "save_field (d # ds) i k v =
     (if map_of d ''_id'' = Some i then AList.update k v d # ds
      else d # save_field ds i k v)"

definition id_num :: "obj \<Rightarrow> nat" where
  "id_num d = (case map_of d ''_id'' of Some (ObjectId n) \<Rightarrow> n | _ \<Rightarrow> 0)"

definition fresh_id :: "store \<Rightarrow> js" where
  "fresh_id st = ObjectId (Suc (fold max (map id_num st) 0))"

text \<open>Dropping fields (\<^verbatim>\<open>select("-a -b")\<close>) and keeping fields (\<^verbatim>\<open>$project\<close>).\<close>

definition select_minus :: "string list \<Rightarrow> obj \<Rightarrow> obj" where
  "select_minus ks d = filter (\<lambda>kv. fst kv \<notin> set ks) d"

definition project :: "string list \<Rightarrow> obj \<Rightarrow> obj" where
  "project ks d = filter (\<lambda>kv. fst kv \<in> set ks) d"

section \<open>External collaborators\<close>

text \<open>
  Modelled from the spec: the token signing boundary (\<^verbatim>\<open>jsonwebtoken\<close> and the model's
  \<^verbatim>\<open>generateAccessToken\<close>, \<^verbatim>\<open>generateRefreshToken\<close>), the password hash of the model
  (\<^verbatim>\<open>isPasswordCorrect\<close> and the hashing done on save) and the Asset Uploader
  (\<^verbatim>\<open>utils/cloudinary.js\<close>) are missing from the sources. They are parameters of every
  handler. \<open>jwt_verify\<close> gives the message of the error it throws, or the decoded payload;
  the uploader gives the uploaded asset or \<^verbatim>\<open>null\<close>.
\<close>

record asset =
  url :: string

record env =
  jwt_verify :: "string \<Rightarrow> string + obj"
  generateAccessToken :: "obj \<Rightarrow> string"
  generateRefreshToken :: "obj \<Rightarrow> string"
  isPasswordCorrect :: "obj \<Rightarrow> string \<Rightarrow> bool"
  hashPassword :: "string \<Rightarrow> string"
  uploadAssetsOnCloudinary :: "string option \<Rightarrow> asset option"

section \<open>Token Service\<close>

text \<open>
  An \<^verbatim>\<open>async\<close> function returns a promise. \<open>await\<close> gives what the promise settles to.
  Reading \<^verbatim>\<open>accessToken\<close> or \<^verbatim>\<open>refreshToken\<close> from the promise object itself, as a
  destructuring without \<^verbatim>\<open>await\<close> does, gives \<^verbatim>\<open>undefined\<close>.
\<close>

datatype 'a promise = Promise 'a

fun await :: "'a promise \<Rightarrow> 'a" where
  "await (Promise x) = x"

definition promise_prop :: "'a promise \<Rightarrow> string \<Rightarrow> js" where
  "promise_prop p k = Undefined"

text \<open>
  \<open>generateAccessAndRefreshTokens\<close>: any failure inside its \<^verbatim>\<open>try\<close> block, here the user
  that is not found, becomes the error 500.
\<close>

definition generateAccessAndRefreshTokens ::
  "env \<Rightarrow> store \<Rightarrow> js \<Rightarrow> (exn + string \<times> string) promise \<times> store" where
  "generateAccessAndRefreshTokens e st userId =
     (case findById st userId of
        None \<Rightarrow> (Promise (Inl (ApiError 500 ''Error generating tokens'')), st)
      | Some u \<Rightarrow>
          (let accessToken = generateAccessToken e u;
               refreshToken = generateRefreshToken e u
           in (Promise (Inr (accessToken, refreshToken)),
               save_field st userId ''refreshToken'' (Str refreshToken))))"

text \<open>
  The \<^verbatim>\<open>try\<close> block of \<open>refreshAccessToken\<close>. The call of
  \<open>generateAccessAndRefreshTokens\<close> is not awaited: the routine runs and its write reaches
  the store, while the two names are read from the promise.
\<close>

definition refresh_guarded :: "env \<Rightarrow> store \<Rightarrow> string \<Rightarrow> exn + response \<times> store" where
  "refresh_guarded e st incomingRefreshToken =
     (case jwt_verify e incomingRefreshToken of
        Inl m \<Rightarrow> Inl (JwtError m)
      | Inr decodedToken \<Rightarrow>
          (case findById st (property decodedToken ''_id'') of
             None \<Rightarrow> Inl (ApiError 401 ''Invalid Refresh Token'')
           | Some u \<Rightarrow>
               if Str incomingRefreshToken \<noteq> property u ''refreshToken''
               then Inl (ApiError 401 ''Refresh token is expired or used'')
               else
                 (let (p, st') = generateAccessAndRefreshTokens e st (property u ''_id'');
                      accessToken = promise_prop p ''accessToken'';
                      refreshToken = promise_prop p ''refreshToken''
                  in Inr (\<lparr>status = 200,
                            cookie = [(''accessToken'', accessToken, options),
                                      (''refreshToken'', refreshToken, options)],
                            clearCookie = [],
                            json = ApiResponse 200
                              [(''accessToken'', accessToken), (''refreshToken'', refreshToken)]
                              ''Access token refreshed successfully''\<rparr>, st'))))"

text \<open>
  \<open>refreshAccessToken\<close>. The \<^verbatim>\<open>catch\<close> block builds an error 400 from the message of
  what it caught and neither throws nor returns it.
\<close>

definition refreshAccessToken :: "env \<Rightarrow> store \<Rightarrow> request \<Rightarrow> outcome \<times> store" where
  "refreshAccessToken e st req =
     (case or_else (map_of (cookies req) ''refreshToken'') (map_of (body req) ''refreshToken'') of
        None \<Rightarrow> (Threw (ApiError 401 ''Error: Did not receive refresh token''), st)
      | Some incomingRefreshToken \<Rightarrow>
          if incomingRefreshToken = []
          then (Threw (ApiError 401 ''Error: Did not receive refresh token''), st)
          else
            (case refresh_guarded e st incomingRefreshToken of
               Inl error \<Rightarrow>
                 (Dropped (ApiError 400
                    (if exn_message error \<noteq> [] then exn_message error
                     else ''Invalid refresh token'')), st)
             | Inr (r, st') \<Rightarrow> (Sent r, st')))"

section \<open>Account Operations\<close>

text \<open>
  \<^verbatim>\<open>User.create(kvs)\<close>: properties whose value is \<^verbatim>\<open>undefined\<close> are not stored,
  the password is stored hashed, the document gets a fresh \<^verbatim>\<open>_id\<close> and joins the
  collection.
\<close>

definition hash_field :: "env \<Rightarrow> string \<times> js \<Rightarrow> string \<times> js" where
  "hash_field e kv =
     (if fst kv = ''password''
      then (fst kv, (case snd kv of Str p \<Rightarrow> Str (hashPassword e p) | v \<Rightarrow> v))
      else kv)"

definition create :: "env \<Rightarrow> store \<Rightarrow> obj \<Rightarrow> obj \<times> store" where
  "create e st kvs =
     (let d = (''_id'', fresh_id st) #
              map (hash_field e) (filter (\<lambda>kv. snd kv \<noteq> Undefined) kvs)
      in (d, st @ [d]))"

text \<open>
  \<^verbatim>\<open>req.files?.k[0]?.path\<close>: \<^verbatim>\<open>undefined\<close> when \<^verbatim>\<open>req.files\<close> is absent; a \<open>TypeError\<close>
  when \<^verbatim>\<open>req.files\<close> is there and has no property \<open>k\<close>, since \<^verbatim>\<open>[0]\<close> then indexes
  \<^verbatim>\<open>undefined\<close>; \<^verbatim>\<open>undefined\<close> for an empty array; the path of the first file otherwise.
\<close>

definition files_path ::
  "(string \<times> multer_file list) list option \<Rightarrow> string \<Rightarrow> exn + string option" where
  "files_path fs k =
     (case fs of
        None \<Rightarrow> Inr None
      | Some m \<Rightarrow>
          (case map_of m k of
             None \<Rightarrow> Inl (TypeError ''Cannot read properties of undefined (reading 0)'')
           | Some [] \<Rightarrow> Inr None
           | Some (f # _) \<Rightarrow> Inr (Some (path f))))"

text \<open>
  \<open>registerUser\<close>. The third component of the result lists the calls of the Asset
  Uploader, each by its argument, in the order they were made.
\<close>

definition registerUser ::
  "env \<Rightarrow> store \<Rightarrow> request \<Rightarrow> outcome \<times> store \<times> string option list" where
  "registerUser e st req =
     (let fullname = map_of (body req) ''fullname'';
          username = map_of (body req) ''username'';
          email = map_of (body req) ''email'';
          password = map_of (body req) ''password''
      in
      if list_ex (\<lambda>field. map_option trim field = Some [])
           [fullname, username, email, password]
      then (Threw (ApiError 400 ''All fields are required''), st, [])
      else
      (case findOne (\<lambda>d. matches d ''username'' (opt_js username) \<or>
                          matches d ''email'' (opt_js email)) st of
         Some existingUser \<Rightarrow>
           (Threw (ApiError 409 ''User with email or username already exists''), st, [])
       | None \<Rightarrow>
      (case files_path (files req) ''avatar'' of
         Inl err \<Rightarrow> (Threw err, st, [])
       | Inr avatarLocalPath \<Rightarrow>
      (case files_path (files req) ''coverImage'' of
         Inl err \<Rightarrow> (Threw err, st, [])
       | Inr coverImageLocalPath \<Rightarrow>
      if truthy avatarLocalPath then
        (let avatar = uploadAssetsOnCloudinary e avatarLocalPath;
             coverImage = uploadAssetsOnCloudinary e coverImageLocalPath;
             uploads = [avatarLocalPath, coverImageLocalPath]
         in
         (case avatar of
            None \<Rightarrow>
              (Threw (ApiError 400 ''Error uploading avatar file to cloudinary''), st, uploads)
          | Some a \<Rightarrow>
         (case username of
            None \<Rightarrow>
              (Threw (TypeError ''Cannot read properties of undefined (reading toLowerCase)''),
               st, uploads)
          | Some un \<Rightarrow>
         (case email of
            None \<Rightarrow>
              (Threw (TypeError ''Cannot read properties of undefined (reading toLowerCase)''),
               st, uploads)
          | Some em \<Rightarrow>
         (let (u, st') = create e st
                [(''fullName'', opt_js fullname),
                 (''userName'', Str (toLowerCase un)),
                 (''avatar'', Str (url a)),
                 (''coverImage'',
                    Str (case coverImage of None \<Rightarrow> []
                         | Some c \<Rightarrow> (if url c \<noteq> [] then url c else []))),
                 (''email'', Str (toLowerCase em)),
                 (''password'', opt_js password)]
          in
          (case map_option (select_minus [''password'', ''refreshToken''])
                  (findById st' (property u ''_id'')) of
             None \<Rightarrow> (Threw (ApiError 500 ''Error creating user in the database''), st', uploads)
           | Some createdUser \<Rightarrow>
               (Sent \<lparr>status = 201, cookie = [], clearCookie = [],
                      json = ApiResponse 200 createdUser ''User created successfully''\<rparr>,
                st', uploads)))))))
      else (Threw (ApiError 400 ''Avatar file is required''), st, [])))))"

text \<open>
  A database query that has been built: \<^verbatim>\<open>User.findByIdAndUpdate(id, {$set: fields})\<close>.
  Building a query does not run it; the store runs it once it is awaited (or executed),
  as \<open>updateUserDetails\<close> and the other handlers do with theirs.
\<close>

datatype query = FindByIdAndUpdate js obj

text \<open>
  \<open>logoutUser\<close> builds the query that sets \<^verbatim>\<open>refreshToken\<close> to \<^verbatim>\<open>undefined\<close> and does not
  await it, so the store is as it was; then it clears both cookies.
\<close>

definition logoutUser :: "store \<Rightarrow> request \<Rightarrow> outcome \<times> store" where
  "logoutUser st req =
     (case user req of
        None \<Rightarrow> (Threw (TypeError ''Cannot read properties of undefined (reading _id)''), st)
      | Some u \<Rightarrow>
          (let q = FindByIdAndUpdate (property u ''_id'') [(''refreshToken'', Undefined)]
           in (Sent \<lparr>status = 200, cookie = [],
                      clearCookie = [(''accessToken'', options), (''refreshToken'', options)],
                      json = ApiResponse 200 [] ''User logged out successfully''\<rparr>, st)))"

text \<open>
  \<open>changePassword\<close>. \<^verbatim>\<open>user.save()\<close> starts the write when it is called, awaited or not;
  it stores the new password, hashed by the store layer.
\<close>

definition changePassword :: "env \<Rightarrow> store \<Rightarrow> request \<Rightarrow> outcome \<times> store" where
  "changePassword e st req =
     (let oldPassword = map_of (body req) ''oldPassword'';
          newPassword = map_of (body req) ''newPassword''
      in
      if truthy oldPassword \<and> truthy newPassword then
        (case findById st (case user req of None \<Rightarrow> Undefined | Some a \<Rightarrow> property a ''_id'') of
           None \<Rightarrow> (Threw (ApiError 404 ''User not found''), st)
         | Some u \<Rightarrow>
             if isPasswordCorrect e u (case oldPassword of None \<Rightarrow> [] | Some p \<Rightarrow> p)
             then (Sent \<lparr>status = 200, cookie = [], clearCookie = [],
                         json = ApiResponse 200 [] ''Password changed successfully''\<rparr>,
                   save_field st (property u ''_id'') ''password''
                     (Str (hashPassword e (case newPassword of None \<Rightarrow> [] | Some p \<Rightarrow> p))))
             else (Threw (ApiError 401 ''Old password is incorrect''), st))
      else (Threw (ApiError 400 ''Old and new password are required''), st))"

section \<open>Profile Aggregator\<close>

text \<open>
  An edge of the Subscription collection: \<open>subscriber\<close> follows \<open>channel\<close>.
\<close>

record subscription =
  channel :: js
  subscriber :: js

text \<open>
  The stages after \<^verbatim>\<open>$match\<close> of the pipeline of \<open>getUserChannelProfile\<close>, on one
  matched document: the two \<^verbatim>\<open>$lookup\<close>s, the three added fields and the projection.
  \<open>caller\<close> is \<^verbatim>\<open>req.user?._id\<close>.
\<close>

definition channel_row :: "subscription list \<Rightarrow> js \<Rightarrow> obj \<Rightarrow> obj" where
  "channel_row subs caller d =
     (let subscribers = filter (\<lambda>s. channel s = property d ''_id'') subs;
          subscribedTo = filter (\<lambda>s. subscriber s = property d ''_id'') subs
      in project [''_id'', ''fullName'', ''username'', ''subscribersCount'',
                  ''channelsSubscribedToCount'', ''isSubscribed'', ''avatar'',
                  ''coverImage'', ''email'']
           (AList.update ''isSubscribed''
              (Bool (to_bson caller \<in> set (map (\<lambda>s. to_bson (subscriber s)) subscribers)))
           (AList.update ''channelsSubscribedToCount'' (Num (length subscribedTo))
           (AList.update ''subscribersCount'' (Num (length subscribers)) d))))"

definition getUserChannelProfile :: "store \<Rightarrow> subscription list \<Rightarrow> request \<Rightarrow> outcome" where
  "getUserChannelProfile st subs req =
     (case map_of (params req) ''username'' of
        None \<Rightarrow> Threw (ApiError 400 ''username is missing'')
      | Some username \<Rightarrow>
          if trim username = [] then Threw (ApiError 400 ''username is missing'')
          else
            (case map (channel_row subs
                        (case user req of None \<Rightarrow> Undefined | Some a \<Rightarrow> property a ''_id''))
                    (filter (\<lambda>d. map_of d ''username'' = Some (Str (toLowerCase username))) st) of
               [] \<Rightarrow> Threw (ApiError 404 ''channel does not exists'')
             | c # _ \<Rightarrow>
                 Sent \<lparr>status = 200, cookie = [], clearCookie = [],
                       json = ApiResponse 200 c ''User channel fetched successfully''\<rparr>))"

section \<open>Sessions\<close>

text \<open>
  A refresh token is a valid session of the store when the guarded block of
  \<open>refreshAccessToken\<close> accepts it: it verifies, its subject resolves to a user, and it
  is that user's stored refresh token.
\<close>

definition session_valid :: "env \<Rightarrow> store \<Rightarrow> string \<Rightarrow> bool" where
  "session_valid e st tok = (case refresh_guarded e st tok of Inl _ \<Rightarrow> False | Inr _ \<Rightarrow> True)"

section \<open>Concrete collaborators, users and requests\<close>

text \<open>
  Collaborators for the concrete runs below: the tokens \<open>T1\<close> and \<open>T2\<close> verify and name
  user 1, every other token is refused; the next refresh token issued is \<open>T2\<close>; a
  password is hashed by putting \<open>#\<close> in front of it; an upload succeeds whenever it is
  given a path.
\<close>

definition env_ex :: env where
  "env_ex =
     \<lparr>jwt_verify = (\<lambda>t. if t = ''T1'' \<or> t = ''T2'' then Inr [(''_id'', ObjectId 1)]
                         else Inl ''jwt malformed''),
      generateAccessToken = (\<lambda>u. ''A2''),
      generateRefreshToken = (\<lambda>u. ''T2''),
      isPasswordCorrect = (\<lambda>u p. property u ''password'' = Str (''#'' @ p)),
      hashPassword = (\<lambda>p. ''#'' @ p),
      uploadAssetsOnCloudinary =
        (\<lambda>p. case p of None \<Rightarrow> None | Some s \<Rightarrow> Some \<lparr>url = ''cdn:'' @ s\<rparr>)\<rparr>"

text \<open>The document \<open>registerUser\<close> creates for Alice, and Alice logged in with \<open>T1\<close>.\<close>

definition alice_created :: obj where
  "alice_created =
     [(''_id'', ObjectId 1), (''fullName'', Str ''Alice A''), (''userName'', Str ''alice''),
      (''avatar'', Str ''cdn:/tmp/a.png''), (''coverImage'', Str ''cdn:/tmp/c.png''),
      (''email'', Str ''alice@x.io''), (''password'', Str ''#pw'')]"

definition alice :: obj where
  "alice = alice_created @ [(''refreshToken'', Str ''T1'')]"

definition alice_rotated :: obj where
  "alice_rotated = alice_created @ [(''refreshToken'', Str ''T2'')]"

text \<open>A user stored with the field \<^verbatim>\<open>username\<close>, and one subscription between two others.\<close>

definition bob :: obj where
  "bob = [(''_id'', ObjectId 2), (''fullName'', Str ''Bob B''), (''username'', Str ''bob''),
          (''email'', Str ''bob@x.io''), (''password'', Str ''#b'')]"

definition other_edge :: subscription where
  "other_edge = \<lparr>channel = ObjectId 3, subscriber = ObjectId 4\<rparr>"

definition req_refresh :: "string \<Rightarrow> request" where
  "req_refresh t =
     \<lparr>body = [], cookies = [(''refreshToken'', t)], params = [], files = None, user = None\<rparr>"

definition req_register ::
  "(string \<times> string) list \<Rightarrow> (string \<times> multer_file list) list \<Rightarrow> request" where
  "req_register b fs = \<lparr>body = b, cookies = [], params = [], files = Some fs, user = None\<rparr>"

definition both_files :: "(string \<times> multer_file list) list" where
  "both_files =
     [(''avatar'', [\<lparr>path = ''/tmp/a.png''\<rparr>]), (''coverImage'', [\<lparr>path = ''/tmp/c.png''\<rparr>])]"

definition avatar_only :: "(string \<times> multer_file list) list" where
  "avatar_only = [(''avatar'', [\<lparr>path = ''/tmp/a.png''\<rparr>])]"

definition alice_form :: "(string \<times> string) list" where
  "alice_form = [(''fullname'', ''Alice A''), (''username'', ''Alice''),
                 (''email'', ''Alice@x.io''), (''password'', ''pw'')]"

definition req_profile :: "string \<Rightarrow> request" where
  "req_profile u =
     \<lparr>body = [], cookies = [], params = [(''username'', u)], files = None, user = None\<rparr>"

definition req_as :: "obj \<Rightarrow> (string \<times> string) list \<Rightarrow> request" where
  "req_as u b = \<lparr>body = b, cookies = [], params = [], files = None, user = Some u\<rparr>"

definition refreshed_ex :: response where
  "refreshed_ex =
     \<lparr>status = 200,
      cookie = [(''accessToken'', Undefined, options), (''refreshToken'', Undefined, options)],
      clearCookie = [],
      json = ApiResponse 200 [(''accessToken'', Undefined), (''refreshToken'', Undefined)]
               ''Access token refreshed successfully''\<rparr>"

text \<open>The same collaborators, with an uploader that takes the avatar and fails on the rest.\<close>

definition env_cover_fails :: env where
  "env_cover_fails =
     env_ex\<lparr>uploadAssetsOnCloudinary :=
       (\<lambda>p. if p = Some ''/tmp/a.png'' then Some \<lparr>url = ''cdn:/tmp/a.png''\<rparr> else None)\<rparr>"

text \<open>The document a second registration with Alice's form creates.\<close>

definition alice_again :: obj where
  "alice_again =
     [(''_id'', ObjectId 2), (''fullName'', Str ''Alice A''), (''userName'', Str ''alice''),
      (''avatar'', Str ''cdn:/tmp/a.png''), (''coverImage'', Str ''cdn:/tmp/c.png''),
      (''email'', Str ''alice@x.io''), (''password'', Str ''#pw'')]"

section \<open>Facts about the store\<close>

lemma select_minus_update:
  "k \<in> set ks \<Longrightarrow> select_minus ks (AList.update k v d) = select_minus ks d"
  by (induction d) (auto simp: select_minus_def)

lemma map_select_minus_save_field:
  "k \<in> set ks \<Longrightarrow> map (select_minus ks) (save_field st i k v) = map (select_minus ks) st"
  by (induction st) (auto simp: select_minus_update)

lemma find_id_save_field:
  "k \<noteq> ''_id'' \<Longrightarrow>
   find (\<lambda>d. map_of d ''_id'' = Some j) (save_field st i k v) =
   map_option (\<lambda>d. if j = i then AList.update k v d else d)
     (find (\<lambda>d. map_of d ''_id'' = Some j) st)"
  by (induction st) (auto simp: update_conv' option.map_ident)

lemma findById_save_field:
  "k \<noteq> ''_id'' \<Longrightarrow>
   findById (save_field st i k v) j =
   map_option (\<lambda>d. if j = i then AList.update k v d else d) (findById st j)"
  by (simp add: findById_def find_id_save_field)

lemma property_update_other:
  "f \<noteq> k \<Longrightarrow> property (AList.update k v d) f = property d f"
  by (simp add: property_def update_conv')

lemma property_findById_save_field:
  "k \<noteq> ''_id'' \<Longrightarrow> f \<noteq> k \<Longrightarrow>
   map_option (\<lambda>d. property d f) (findById (save_field st i k v) j) =
   map_option (\<lambda>d. property d f) (findById st j)"
  by (cases "findById st j") (simp_all add: findById_save_field property_update_other)

lemma session_valid_save_field:
  assumes "k \<noteq> ''_id''" "k \<noteq> ''refreshToken''"
  shows "session_valid e (save_field st i k v) tok = session_valid e st tok"
proof (cases "jwt_verify e tok")
  case (Inl m)
  then show ?thesis by (simp add: session_valid_def refresh_guarded_def)
next
  case (Inr p)
  show ?thesis
  proof (cases "findById st (property p ''_id'')")
    case None
    with Inr assms show ?thesis
      by (simp add: session_valid_def refresh_guarded_def findById_save_field)
  next
    case (Some u)
    with Inr assms show ?thesis
      by (simp add: session_valid_def refresh_guarded_def findById_save_field
            property_update_other Let_def split: prod.splits)
  qed
qed

lemma map_of_project:
  "map_of (project ks d) k = (if k \<in> set ks then map_of d k else None)"
  by (induction d) (auto simp: project_def)

lemma find_Some_filter:
  "find P xs = Some x \<Longrightarrow> \<exists>ys. filter P xs = x # ys"
  by (induction xs) (auto split: if_splits)

section \<open>Token refresh\<close>

text \<open>
  C1 (rotation invalidates reuse). Alice holds \<open>T1\<close>. The first refresh with \<open>T1\<close> is
  answered with status 200 and stores \<open>T2\<close>. The second refresh with \<open>T1\<close> meets the
  stored-token comparison, which throws the error 401 inside the guarded block; the
  \<^verbatim>\<open>catch\<close> block drops it, so the handler ends without an error and without a response
  instead of failing with an authentication error.
\<close>

theorem refresh_replay_error_dropped:
  "refreshAccessToken env_ex [alice] (req_refresh ''T1'') = (Sent refreshed_ex, [alice_rotated]) \<and>
   refreshAccessToken env_ex [alice_rotated] (req_refresh ''T1'') =
     (Dropped (ApiError 400 ''Refresh token is expired or used''), [alice_rotated])"
  by code_simp

text \<open>
  C2 (a successful refresh returns the new pair). The token routine issues the pair
  \<open>A2\<close>, \<open>T2\<close>, but \<open>refreshAccessToken\<close> reads the two names from the promise it did not
  await: both cookies and both fields of the payload are \<^verbatim>\<open>undefined\<close>.
\<close>

theorem refresh_response_tokens_undefined:
  "fst (generateAccessAndRefreshTokens env_ex [alice] (ObjectId 1)) = Promise (Inr (''A2'', ''T2'')) \<and>
   fst (refreshAccessToken env_ex [alice] (req_refresh ''T1'')) =
     Sent \<lparr>status = 200,
           cookie = [(''accessToken'', Undefined, options), (''refreshToken'', Undefined, options)],
           clearCookie = [],
           json = ApiResponse 200 [(''accessToken'', Undefined), (''refreshToken'', Undefined)]
                    ''Access token refreshed successfully''\<rparr>"
  by code_simp

text \<open>
  C3 (the verification failure is discarded). Whenever a refresh token was received and
  the guarded block fails, because the token does not verify, because its subject
  resolves to no user, or because it is not the user's stored refresh token, the handler
  ends with the error 400 built and dropped: nothing is thrown, nothing is sent, and the
  store is unchanged.
\<close>

theorem refresh_failure_discarded:
  assumes "or_else (map_of (cookies req) ''refreshToken'') (map_of (body req) ''refreshToken'')
             = Some tok"
    and "tok \<noteq> []"
    and "(\<exists>m. jwt_verify e tok = Inl m) \<or>
         (\<exists>p. jwt_verify e tok = Inr p \<and> findById st (property p ''_id'') = None) \<or>
         (\<exists>p u. jwt_verify e tok = Inr p \<and> findById st (property p ''_id'') = Some u \<and>
                 Str tok \<noteq> property u ''refreshToken'')"
  shows "\<exists>m. refreshAccessToken e st req = (Dropped (ApiError 400 m), st)"
  using assms
  by (auto simp: refreshAccessToken_def refresh_guarded_def)

theorem refresh_failure_discarded_witness:
  "jwt_verify env_ex ''bogus'' = Inl ''jwt malformed'' \<and>
   (\<exists>m. refreshAccessToken env_ex [alice] (req_refresh ''bogus'') =
          (Dropped (ApiError 400 m), [alice]))"
proof -
  have a: "or_else (map_of (cookies (req_refresh ''bogus'')) ''refreshToken'')
             (map_of (body (req_refresh ''bogus'')) ''refreshToken'') = Some ''bogus''"
    by (simp add: req_refresh_def or_else_def truthy_def)
  have b: "''bogus'' \<noteq> []" by simp
  have c: "jwt_verify env_ex ''bogus'' = Inl ''jwt malformed''"
    by (simp add: env_ex_def)
  from refresh_failure_discarded [OF a b, of env_ex "[alice]"] c show ?thesis
    by blast
qed

section \<open>Registration\<close>

text \<open>
  C4 (an absent or blank required field is a client error). A form without the field
  \<^verbatim>\<open>username\<close> passes the blank-field test, since \<^verbatim>\<open>undefined?.trim()\<close> is not the empty
  string. Both uploads are made, and the handler then fails with a \<open>TypeError\<close> at
  \<^verbatim>\<open>username.toLowerCase()\<close> rather than with the error 400.
\<close>

theorem register_absent_username_not_rejected:
  "registerUser env_ex []
     (req_register [(''fullname'', ''Alice A''), (''email'', ''Alice@x.io''), (''password'', ''pw'')]
        both_files) =
   (Threw (TypeError ''Cannot read properties of undefined (reading toLowerCase)''), [],
    [Some ''/tmp/a.png'', Some ''/tmp/c.png''])"
  by code_simp

text \<open>
  C5 (a duplicate is a conflict, found before any upload). Alice is registered, and the
  same valid form is sent again. The existence check looks for the submitted name in
  the field \<^verbatim>\<open>username\<close> and for the submitted email \<open>Alice@x.io\<close> as it was typed,
  while her record holds the name under \<^verbatim>\<open>userName\<close> and the email lowercased. The
  check finds nobody: both uploads are made and a second user of the same name and
  email is created, instead of the conflict error 409 with no upload. A form with her
  lowercased name and another email is taken in the same way.
\<close>

theorem register_duplicate_not_detected:
  "property alice_created ''userName'' = Str ''alice'' \<and>
   property alice_created ''email'' = Str ''alice@x.io'' \<and>
   registerUser env_ex [alice_created] (req_register alice_form both_files) =
     (Sent \<lparr>status = 201, cookie = [], clearCookie = [],
            json = ApiResponse 200 (select_minus [''password'', ''refreshToken''] alice_again)
                     ''User created successfully''\<rparr>,
      [alice_created, alice_again], [Some ''/tmp/a.png'', Some ''/tmp/c.png'']) \<and>
   snd (snd (registerUser env_ex [alice_created]
     (req_register [(''fullname'', ''Al''), (''username'', ''alice''),
                    (''email'', ''al@x.io''), (''password'', ''pw'')] both_files))) =
     [Some ''/tmp/a.png'', Some ''/tmp/c.png''] \<and>
   map (\<lambda>d. property d ''userName'')
     (fst (snd (registerUser env_ex [alice_created]
       (req_register [(''fullname'', ''Al''), (''username'', ''alice''),
                      (''email'', ''al@x.io''), (''password'', ''pw'')] both_files)))) =
     [Str ''alice'', Str ''alice'']"
  by code_simp

text \<open>
  C6 (the cover image is optional). A valid form with an avatar file and no cover image
  file: \<^verbatim>\<open>req.files\<close> has no property \<^verbatim>\<open>coverImage\<close>, and \<^verbatim>\<open>req.files?.coverImage[0]\<close>
  raises a \<open>TypeError\<close>. Registration fails before any upload and creates no user.
\<close>

theorem register_without_cover_image_fails:
  "registerUser env_ex [] (req_register alice_form avatar_only) =
   (Threw (TypeError ''Cannot read properties of undefined (reading 0)''), [], [])"
  by code_simp

text \<open>
  C7 (a registered user has a channel profile). Registration of \<open>Alice\<close> succeeds and
  stores the lowercased name under \<^verbatim>\<open>userName\<close>; the profile query matches on
  \<^verbatim>\<open>username\<close>, finds no row and fails with the error 404.
\<close>

theorem registered_user_profile_not_found:
  "registerUser env_ex [] (req_register alice_form both_files) =
     (Sent \<lparr>status = 201, cookie = [], clearCookie = [],
            json = ApiResponse 200 (select_minus [''password'', ''refreshToken''] alice_created)
                     ''User created successfully''\<rparr>,
      [alice_created], [Some ''/tmp/a.png'', Some ''/tmp/c.png'']) \<and>
   property alice_created ''userName'' = Str ''alice'' \<and>
   getUserChannelProfile [alice_created] [] (req_profile ''Alice'') =
     Threw (ApiError 404 ''channel does not exists'')"
  by code_simp

section \<open>Channel profile\<close>

text \<open>
  C8 (a channel without edges, seen anonymously). The request names a non-blank
  username and carries no resolved caller. \<open>d\<close> is the stored user the match on the
  lowercased username yields first (usernames are unique, so it is the user of that
  name), and no subscription has \<open>d\<close> as its channel or as its subscriber. Then the
  profile is sent with both counts 0 and \<^verbatim>\<open>isSubscribed\<close> false.
\<close>

theorem profile_without_edges:
  assumes "map_of (params req) ''username'' = Some un"
    and "trim un \<noteq> []"
    and "user req = None"
    and "find (\<lambda>d. map_of d ''username'' = Some (Str (toLowerCase un))) st = Some d"
    and "\<forall>s\<in>set subs. channel s \<noteq> property d ''_id'' \<and> subscriber s \<noteq> property d ''_id''"
  shows "\<exists>r. getUserChannelProfile st subs req = Sent r \<and> status r = 200 \<and>
             property (data (json r)) ''subscribersCount'' = Num 0 \<and>
             property (data (json r)) ''channelsSubscribedToCount'' = Num 0 \<and>
             property (data (json r)) ''isSubscribed'' = Bool False"
proof -
  from assms(4) obtain ds where
    rows: "filter (\<lambda>d. map_of d ''username'' = Some (Str (toLowerCase un))) st = d # ds"
    using find_Some_filter by fastforce
  from assms(5) have
    no_subscribers: "filter (\<lambda>s. channel s = property d ''_id'') subs = []" and
    no_subscribed: "filter (\<lambda>s. subscriber s = property d ''_id'') subs = []"
    by (auto simp: filter_empty_conv)
  have row: "property (channel_row subs Undefined d) ''subscribersCount'' = Num 0 \<and>
             property (channel_row subs Undefined d) ''channelsSubscribedToCount'' = Num 0 \<and>
             property (channel_row subs Undefined d) ''isSubscribed'' = Bool False"
    unfolding channel_row_def Let_def no_subscribers no_subscribed
    by (simp add: property_def map_of_project update_conv')
  from assms(1-3) rows row show ?thesis
    by (simp add: getUserChannelProfile_def ApiResponse_def)
qed

theorem profile_without_edges_witness:
  "\<exists>r. getUserChannelProfile [alice, bob] [other_edge] (req_profile ''BoB'') = Sent r \<and>
       status r = 200 \<and>
       property (data (json r)) ''subscribersCount'' = Num 0 \<and>
       property (data (json r)) ''channelsSubscribedToCount'' = Num 0 \<and>
       property (data (json r)) ''isSubscribed'' = Bool False"
proof -
  have a: "map_of (params (req_profile ''BoB'')) ''username'' = Some ''BoB''"
    by (simp add: req_profile_def)
  have b: "trim ''BoB'' \<noteq> []"
    by code_simp
  have c: "user (req_profile ''BoB'') = None"
    by (simp add: req_profile_def)
  have d: "find (\<lambda>d. map_of d ''username'' = Some (Str (toLowerCase ''BoB''))) [alice, bob]
             = Some bob"
    by code_simp
  have e: "\<forall>s\<in>set [other_edge].
             channel s \<noteq> property bob ''_id'' \<and> subscriber s \<noteq> property bob ''_id''"
    by (simp add: other_edge_def bob_def property_def)
  from profile_without_edges [OF a b c d e] show ?thesis .
qed

section \<open>Logout\<close>

text \<open>
  C9 (logout clears the session, twice over). Alice is logged in with \<open>T1\<close> and logs out
  twice. Neither call fails, but the query that would clear the field is built and never
  awaited: after each call the store still holds \<open>T1\<close> for her.
\<close>

theorem logout_keeps_refresh_token:
  "logoutUser [alice] (req_as alice []) =
     (Sent \<lparr>status = 200, cookie = [],
            clearCookie = [(''accessToken'', options), (''refreshToken'', options)],
            json = ApiResponse 200 [] ''User logged out successfully''\<rparr>, [alice]) \<and>
   snd (logoutUser (snd (logoutUser [alice] (req_as alice []))) (req_as alice [])) = [alice] \<and>
   property alice ''refreshToken'' = Str ''T1''"
  by code_simp

section \<open>Password change\<close>

text \<open>
  C10 (a password change touches the password only). When \<open>changePassword\<close> succeeds,
  every stored user keeps every field other than \<^verbatim>\<open>password\<close>; in particular the stored
  refresh token of every user is what it was, and a refresh token is a valid session
  afterwards exactly when it was one before.
\<close>

theorem changePassword_only_password:
  assumes "fst (changePassword e st req) = Sent r"
  shows "map (select_minus [''password'']) (snd (changePassword e st req)) =
           map (select_minus [''password'']) st \<and>
         (\<forall>i. map_option (\<lambda>d. property d ''refreshToken'')
                 (findById (snd (changePassword e st req)) i) =
               map_option (\<lambda>d. property d ''refreshToken'') (findById st i)) \<and>
         (\<forall>tok. session_valid e (snd (changePassword e st req)) tok = session_valid e st tok)"
proof -
  from assms obtain i v where
    "snd (changePassword e st req) = save_field st i ''password'' v"
    by (auto simp: changePassword_def Let_def split: if_splits option.splits)
  then show ?thesis
    by (simp add: map_select_minus_save_field property_findById_save_field
          session_valid_save_field)
qed

theorem changePassword_only_password_witness:
  "fst (changePassword env_ex [alice]
          (req_as alice [(''oldPassword'', ''pw''), (''newPassword'', ''pw2'')])) =
     Sent \<lparr>status = 200, cookie = [], clearCookie = [],
           json = ApiResponse 200 [] ''Password changed successfully''\<rparr> \<and>
   map_option (\<lambda>d. property d ''refreshToken'')
     (findById (snd (changePassword env_ex [alice]
          (req_as alice [(''oldPassword'', ''pw''), (''newPassword'', ''pw2'')]))) (ObjectId 1)) =
     map_option (\<lambda>d. property d ''refreshToken'') (findById [alice] (ObjectId 1)) \<and>
   session_valid env_ex (snd (changePassword env_ex [alice]
          (req_as alice [(''oldPassword'', ''pw''), (''newPassword'', ''pw2'')]))) ''T1'' =
     session_valid env_ex [alice] ''T1''"
proof -
  have a: "fst (changePassword env_ex [alice]
          (req_as alice [(''oldPassword'', ''pw''), (''newPassword'', ''pw2'')])) =
     Sent \<lparr>status = 200, cookie = [], clearCookie = [],
           json = ApiResponse 200 [] ''Password changed successfully''\<rparr>"
    by code_simp
  from changePassword_only_password [OF a] a show ?thesis
    by blast
qed

section \<open>Further properties of the handlers\<close>

lemma fold_max_upper: "x \<in> set xs \<Longrightarrow> x \<le> fold max xs (a::nat)"
proof -
  assume "x \<in> set xs"
  then have "x \<le> Max (set (a # xs))" by simp
  then show ?thesis by (simp only: Max.set_eq_fold)
qed

lemma fresh_id_new: "d \<in> set st \<Longrightarrow> map_of d ''_id'' \<noteq> Some (fresh_id st)"
proof
  assume d: "d \<in> set st" and eq: "map_of d ''_id'' = Some (fresh_id st)"
  from eq have "id_num d = Suc (fold max (map id_num st) 0)"
    by (simp add: id_num_def fresh_id_def)
  moreover from d have "id_num d \<le> fold max (map id_num st) 0"
    by (intro fold_max_upper) simp
  ultimately show False by simp
qed

lemma find_snoc_new:
  "\<forall>x\<in>set xs. \<not> P x \<Longrightarrow> P y \<Longrightarrow> find P (xs @ [y]) = Some y"
  by (induction xs) auto

lemma findById_create:
  "create e st kvs = (u, st') \<Longrightarrow> st' = st @ [u] \<and> findById st' (property u ''_id'') = Some u"
  by (auto simp: create_def Let_def findById_def property_def fresh_id_def
        intro!: find_snoc_new dest: fresh_id_new [unfolded fresh_id_def])

lemma map_of_select_minus:
  "map_of (select_minus ks d) k = (if k \<in> set ks then None else map_of d k)"
  by (induction d) (auto simp: select_minus_def)

text \<open>
  Blank fields. A required field that is present and blank after trimming makes
  \<open>registerUser\<close> fail with the error 400, with no store write and no upload.
\<close>

theorem register_blank_field_rejected:
  assumes "k \<in> {''fullname'', ''username'', ''email'', ''password''}"
    and "map_of (body req) k = Some v"
    and "trim v = []"
  shows "registerUser e st req = (Threw (ApiError 400 ''All fields are required''), st, [])"
  using assms by (auto simp: registerUser_def Let_def)

theorem register_blank_field_rejected_witness:
  "registerUser env_ex [alice]
     (req_register [(''fullname'', ''Bo''), (''username'', ''bo''), (''email'', '' ''),
                    (''password'', ''pw'')] both_files) =
   (Threw (ApiError 400 ''All fields are required''), [alice], [])"
proof -
  let ?req = "req_register [(''fullname'', ''Bo''), (''username'', ''bo''), (''email'', '' ''),
                    (''password'', ''pw'')] both_files"
  have a: "''email'' \<in> {''fullname'', ''username'', ''email'', ''password''}" by simp
  have b: "map_of (body ?req) ''email'' = Some '' ''" by (simp add: req_register_def)
  have c: "trim '' '' = []" by code_simp
  from register_blank_field_rejected [OF a b c] show ?thesis .
qed

text \<open>
  Cover image upload failure. When the form passes the blank-field test and the existence check, both file
  paths can be read, the avatar upload succeeds and the cover image upload gives
  \<^verbatim>\<open>null\<close>, registration is answered with status 201 and the created user, stored last,
  has the empty string as its cover image.
\<close>

theorem register_cover_upload_failure_tolerated:
  assumes "\<not> list_ex (\<lambda>field. map_option trim field = Some [])
               [map_of (body req) ''fullname'', map_of (body req) ''username'',
                map_of (body req) ''email'', map_of (body req) ''password'']"
    and "findOne (\<lambda>d. matches d ''username'' (opt_js (map_of (body req) ''username'')) \<or>
                       matches d ''email'' (opt_js (map_of (body req) ''email''))) st = None"
    and "files_path (files req) ''avatar'' = Inr (Some pa)"
    and "pa \<noteq> []"
    and "files_path (files req) ''coverImage'' = Inr pc"
    and "uploadAssetsOnCloudinary e (Some pa) = Some a"
    and "uploadAssetsOnCloudinary e pc = None"
    and "map_of (body req) ''username'' = Some un"
    and "map_of (body req) ''email'' = Some em"
  shows "\<exists>r u. registerUser e st req = (Sent r, st @ [u], [Some pa, pc]) \<and> status r = 201 \<and>
               property u ''coverImage'' = Str []"
proof -
  obtain u st' where c: "create e st
                [(''fullName'', opt_js (map_of (body req) ''fullname'')),
                 (''userName'', Str (toLowerCase un)),
                 (''avatar'', Str (url a)),
                 (''coverImage'', Str []),
                 (''email'', Str (toLowerCase em)),
                 (''password'', opt_js (map_of (body req) ''password''))] = (u, st')"
    by fastforce
  from findById_create [OF c] have st': "st' = st @ [u]"
    and found: "findById st' (property u ''_id'') = Some u"
    by blast+
  from c have cover: "property u ''coverImage'' = Str []"
    by (auto simp: create_def Let_def property_def hash_field_def opt_js_def split: option.splits)
  from assms c found have
    "registerUser e st req =
       (Sent \<lparr>status = 201, cookie = [], clearCookie = [],
              json = ApiResponse 200 (select_minus [''password'', ''refreshToken''] u)
                       ''User created successfully''\<rparr>, st', [Some pa, pc])"
    by (simp add: registerUser_def Let_def truthy_def)
  with st' cover show ?thesis by simp
qed

theorem register_cover_upload_failure_tolerated_witness:
  "\<exists>r u. registerUser env_cover_fails [] (req_register alice_form both_files) =
            (Sent r, [] @ [u], [Some ''/tmp/a.png'', Some ''/tmp/c.png'']) \<and>
          status r = 201 \<and> property u ''coverImage'' = Str []"
proof -
  let ?req = "req_register alice_form both_files"
  have a: "\<not> list_ex (\<lambda>field. map_option trim field = Some [])
               [map_of (body ?req) ''fullname'', map_of (body ?req) ''username'',
                map_of (body ?req) ''email'', map_of (body ?req) ''password'']"
    by code_simp
  have b: "findOne (\<lambda>d. matches d ''username'' (opt_js (map_of (body ?req) ''username'')) \<or>
                       matches d ''email'' (opt_js (map_of (body ?req) ''email''))) [] = None"
    by (simp add: findOne_def)
  have c: "files_path (files ?req) ''avatar'' = Inr (Some ''/tmp/a.png'')"
    by (simp add: files_path_def req_register_def both_files_def)
  have d: "''/tmp/a.png'' \<noteq> []" by simp
  have f: "files_path (files ?req) ''coverImage'' = Inr (Some ''/tmp/c.png'')"
    by (simp add: files_path_def req_register_def both_files_def)
  have g: "uploadAssetsOnCloudinary env_cover_fails (Some ''/tmp/a.png'') =
             Some \<lparr>url = ''cdn:/tmp/a.png''\<rparr>"
    by (simp add: env_cover_fails_def)
  have h: "uploadAssetsOnCloudinary env_cover_fails (Some ''/tmp/c.png'') = None"
    by (simp add: env_cover_fails_def)
  have i: "map_of (body ?req) ''username'' = Some ''Alice''"
    by (simp add: req_register_def alice_form_def)
  have j: "map_of (body ?req) ''email'' = Some ''Alice@x.io''"
    by (simp add: req_register_def alice_form_def)
  from register_cover_upload_failure_tolerated [OF a b c d f g h i j] show ?thesis .
qed

text \<open>
  Unknown channel. A profile request for a non-blank username that no stored user has as its
  \<^verbatim>\<open>username\<close> field fails with the error 404.
\<close>

theorem profile_unknown_username_not_found:
  assumes "map_of (params req) ''username'' = Some un"
    and "trim un \<noteq> []"
    and "filter (\<lambda>d. map_of d ''username'' = Some (Str (toLowerCase un))) st = []"
  shows "getUserChannelProfile st subs req = Threw (ApiError 404 ''channel does not exists'')"
  using assms by (simp add: getUserChannelProfile_def)

theorem profile_unknown_username_not_found_witness:
  "getUserChannelProfile [alice, bob] [other_edge] (req_profile ''carol'') =
     Threw (ApiError 404 ''channel does not exists'')"
proof -
  have a: "map_of (params (req_profile ''carol'')) ''username'' = Some ''carol''"
    by (simp add: req_profile_def)
  have b: "trim ''carol'' \<noteq> []" by code_simp
  have c: "filter (\<lambda>d. map_of d ''username'' = Some (Str (toLowerCase ''carol''))) [alice, bob] = []"
    by code_simp
  from profile_unknown_username_not_found [OF a b c] show ?thesis .
qed

text \<open>
  Missing refresh token. A refresh request that carries no refresh token, neither as a cookie nor in the
  body, fails with the error 401, which is thrown to the caller, and leaves the store
  unchanged.
\<close>

theorem refresh_without_token_unauthorized:
  assumes "\<not> truthy (map_of (cookies req) ''refreshToken'')"
    and "\<not> truthy (map_of (body req) ''refreshToken'')"
  shows "refreshAccessToken e st req =
           (Threw (ApiError 401 ''Error: Did not receive refresh token''), st)"
  using assms
  by (auto simp: refreshAccessToken_def or_else_def truthy_def split: option.splits)

theorem refresh_without_token_unauthorized_witness:
  "refreshAccessToken env_ex [alice] (req_as alice []) =
     (Threw (ApiError 401 ''Error: Did not receive refresh token''), [alice])"
proof -
  have a: "\<not> truthy (map_of (cookies (req_as alice [])) ''refreshToken'')"
    by (simp add: req_as_def truthy_def)
  have b: "\<not> truthy (map_of (body (req_as alice [])) ''refreshToken'')"
    by (simp add: req_as_def truthy_def)
  from refresh_without_token_unauthorized [OF a b] show ?thesis .
qed

text \<open>
  Sanitized payload. The payload of a successful registration has neither a \<^verbatim>\<open>password\<close> nor a
  \<^verbatim>\<open>refreshToken\<close> field.
\<close>

theorem register_payload_sanitized:
  assumes "fst (registerUser e st req) = Sent r"
  shows "map_of (data (json r)) ''password'' = None \<and>
         map_of (data (json r)) ''refreshToken'' = None"
  using assms
  by (auto simp: registerUser_def Let_def ApiResponse_def map_of_select_minus
        split: if_splits option.splits sum.splits prod.splits)

theorem register_payload_sanitized_witness:
  "fst (registerUser env_ex [] (req_register alice_form both_files)) =
     Sent \<lparr>status = 201, cookie = [], clearCookie = [],
           json = ApiResponse 200 (select_minus [''password'', ''refreshToken''] alice_created)
                    ''User created successfully''\<rparr> \<and>
   map_of (select_minus [''password'', ''refreshToken''] alice_created) ''password'' = None \<and>
   map_of (select_minus [''password'', ''refreshToken''] alice_created) ''refreshToken'' = None"
proof -
  have a: "fst (registerUser env_ex [] (req_register alice_form both_files)) =
     Sent \<lparr>status = 201, cookie = [], clearCookie = [],
           json = ApiResponse 200 (select_minus [''password'', ''refreshToken''] alice_created)
                    ''User created successfully''\<rparr>"
    by code_simp
  from register_payload_sanitized [OF a] a show ?thesis
    by (simp add: ApiResponse_def)
qed

text \<open>
  Single-slot storage. The token routine, for a user that exists, returns the pair the model methods
  generate and stores that refresh token as the user's single stored refresh token.
\<close>

theorem issued_refresh_token_is_stored:
  assumes "findById st i = Some u"
  shows "generateAccessAndRefreshTokens e st i =
           (Promise (Inr (generateAccessToken e u, generateRefreshToken e u)),
            save_field st i ''refreshToken'' (Str (generateRefreshToken e u))) \<and>
         map_option (\<lambda>d. property d ''refreshToken'')
           (findById (save_field st i ''refreshToken'' (Str (generateRefreshToken e u))) i) =
         Some (Str (generateRefreshToken e u))"
  using assms
  by (simp add: generateAccessAndRefreshTokens_def Let_def findById_save_field
        property_def update_conv')

theorem issued_refresh_token_is_stored_witness:
  "generateAccessAndRefreshTokens env_ex [alice] (ObjectId 1) =
     (Promise (Inr (''A2'', ''T2'')), save_field [alice] (ObjectId 1) ''refreshToken'' (Str ''T2'')) \<and>
   map_option (\<lambda>d. property d ''refreshToken'')
     (findById (save_field [alice] (ObjectId 1) ''refreshToken'' (Str ''T2'')) (ObjectId 1)) =
     Some (Str ''T2'')"
proof -
  have a: "findById [alice] (ObjectId 1) = Some alice"
    by (simp add: findById_def alice_def alice_created_def)
  from issued_refresh_token_is_stored [OF a, of env_ex] show ?thesis
    by (simp add: env_ex_def)
qed

end
